theory Spec2Isabelle
  imports Main
begin

section \<open>Data model (types.ts and the state hooks of App)\<close>

text \<open>
  \<^verbatim>\<open>LightingEffect\<close>, \<^verbatim>\<open>SunlightIntensity\<close> and \<^verbatim>\<open>SunlightDirection\<close> are unions of
  literals in the source. At run time a \<^verbatim>\<open>LightingEffect\<close> is the string itself, which
  \<open>effect_name\<close> gives back.
\<close>

datatype LightingEffect =
    Sunlight
  | Shadows
  | SunlightAndShadows
  | RemoveSunlight
  | RemoveShadows
  | RemoveSunlightAndShadows

fun effect_name :: "LightingEffect \<Rightarrow> string" where
  "effect_name Sunlight = ''sunlight''"
| "effect_name Shadows = ''shadows''"
| "effect_name SunlightAndShadows = ''sunlight-and-shadows''"
| "effect_name RemoveSunlight = ''remove-sunlight''"
| "effect_name RemoveShadows = ''remove-shadows''"
| "effect_name RemoveSunlightAndShadows = ''remove-sunlight-and-shadows''"

datatype SunlightIntensity = Intensity1 | Intensity2 | Intensity3

datatype SunlightDirection = Top | Left | Center | Right | Bottom

text \<open>
  \<^verbatim>\<open>ImageFile\<close>. The field \<open>base64\<close> is \<^verbatim>\<open>split(',')[1]\<close> of the reader's result, which
  is \<^verbatim>\<open>undefined\<close> at run time when that result holds no comma: hence the option.
\<close>

record ImageFile =
  base64 :: "string option"
  mimeType :: string
  name :: string

text \<open>\<^verbatim>\<open>ActiveProcess = LightingEffect | 'variation' | null\<close>; \<^verbatim>\<open>null\<close> is \<open>None\<close>.\<close>

datatype Process = Effect LightingEffect | Variation

type_synonym ActiveProcess = "Process option"

record EffectConfig =
  effect :: LightingEffect
  intensity :: SunlightIntensity
  direction :: SunlightDirection

text \<open>The ten \<^verbatim>\<open>useState\<close> cells of the component, under the names the source gives them.\<close>

record AppState =
  originalImage :: "ImageFile option"
  generatedImage :: "string option"
  isLoading :: bool
  error :: "string option"
  activeProcess :: ActiveProcess
  sunlightIntensity :: SunlightIntensity
  sunlightDirection :: SunlightDirection
  lastAppliedConfig :: "EffectConfig option"
  isAddMenuOpen :: bool
  isRemoveMenuOpen :: bool

definition initial :: AppState where
  "initial = \<lparr> originalImage = None, generatedImage = None, isLoading = False,
     error = None, activeProcess = None, sunlightIntensity = Intensity2,
     sunlightDirection = Top, lastAppliedConfig = None,
     isAddMenuOpen = False, isRemoveMenuOpen = False \<rparr>"

text \<open>What the controller reads of the browser's \<^verbatim>\<open>File\<close>: its \<^verbatim>\<open>type\<close> and its \<^verbatim>\<open>name\<close>.\<close>

record File =
  file_type :: string
  file_name :: string

text \<open>The anchor element that \<^verbatim>\<open>handleDownload\<close> builds and clicks.\<close>

record Download =
  href :: string
  download :: string

section \<open>The string operations the handlers use\<close>

definition startsWith :: "string \<Rightarrow> string \<Rightarrow> bool" where
  "startsWith s p = (take (length p) s = p)"

text \<open>
  \<^verbatim>\<open>s.split(c)\<close> for a one-character separator: the pieces between the separators, of
  which there is always at least one (\<^verbatim>\<open>"".split('.')\<close> is \<^verbatim>\<open>[""]\<close>). \<open>prepend\<close> puts
  a character in front of the first piece.
\<close>

fun prepend :: "char \<Rightarrow> string list \<Rightarrow> string list" where
  "prepend x [] = [[x]]"
| "prepend x (w # ws) = (x # w) # ws"

fun split_on :: "char \<Rightarrow> string \<Rightarrow> string list" where
  "split_on c [] = [[]]"
| "split_on c (x # xs) =
     (if x = c then [] # split_on c xs else prepend x (split_on c xs))"

fun join :: "string \<Rightarrow> string list \<Rightarrow> string" where
  "join sep [] = []"
| "join sep [w] = w"
| "join sep (w # v # ws) = w @ sep @ join sep (v # ws)"

text \<open>\<^verbatim>\<open>xs[i]\<close>, which is \<^verbatim>\<open>undefined\<close> out of range.\<close>

definition element_at :: "'a list \<Rightarrow> nat \<Rightarrow> 'a option" where
  "element_at xs i = (if i < length xs then Some (xs ! i) else None)"

text \<open>
  \<^verbatim>\<open>v || dflt\<close> on a string that may be \<^verbatim>\<open>undefined\<close>: the empty string is falsy as
  well.
\<close>

definition js_or :: "string option \<Rightarrow> string \<Rightarrow> string" where
  "js_or v dflt = (case v of None \<Rightarrow> dflt | Some t \<Rightarrow> if t = [] then dflt else t)"

section \<open>handleImageUpload\<close>

text \<open>
  The handler itself validates the file and hands it to a \<^verbatim>\<open>FileReader\<close>; the four
  setters run later, in \<^verbatim>\<open>reader.onload\<close>. \<open>handleImageUpload\<close> returns the state and
  the file whose reading was started, if any. The argument is \<^verbatim>\<open>event.target.files?.[0]\<close>.
\<close>

definition handleImageUpload :: "AppState \<Rightarrow> File option \<Rightarrow> AppState \<times> File option" where
  "handleImageUpload s file =
     (case file of
        None \<Rightarrow> (s, None)
      | Some f \<Rightarrow>
          if \<not> startsWith (file_type f) ''image/''
          then (s\<lparr>error :=
                  Some ''Please upload a valid image file (e.g., JPEG, PNG, WEBP).''\<rparr>,
                None)
          else (s, Some f))"

definition reader_onload :: "AppState \<Rightarrow> File \<Rightarrow> string \<Rightarrow> AppState" where
  "reader_onload s f result =
     s\<lparr>originalImage :=
         Some \<lparr>base64 = element_at (split_on CHR '','' result) 1,
               mimeType = file_type f, name = file_name f\<rparr>,
       generatedImage := None,
       lastAppliedConfig := None,
       error := None\<rparr>"

definition reader_onerror :: "AppState \<Rightarrow> AppState" where
  "reader_onerror s = s\<lparr>error := Some ''Failed to read the selected file.''\<rparr>"

datatype ReadOutcome = Loaded string | ReadFailed

text \<open>An upload from the choice of the file to the end of its reading, nothing in between.\<close>

definition upload :: "AppState \<Rightarrow> File option \<Rightarrow> ReadOutcome \<Rightarrow> AppState" where
  "upload s file r =
     (case handleImageUpload s file of
        (s', None) \<Rightarrow> s'
      | (s', Some f) \<Rightarrow>
          (case r of Loaded result \<Rightarrow> reader_onload s' f result
                   | ReadFailed \<Rightarrow> reader_onerror s'))"

section \<open>handleDownload\<close>

text \<open>
  \<open>None\<close> is the early return. \<^verbatim>\<open>!generatedImage\<close> holds of \<^verbatim>\<open>null\<close> and of the empty
  string. \<^verbatim>\<open>slice(0, -1)\<close> is \<open>butlast\<close>.
\<close>

definition handleDownload :: "AppState \<Rightarrow> Download option" where
  "handleDownload s =
     (case generatedImage s of
        None \<Rightarrow> None
      | Some g \<Rightarrow>
          if g = [] then None
          else
            (case originalImage s of
               None \<Rightarrow> None
             | Some img \<Rightarrow>
                 (let nm = js_or (Some (join ''.'' (butlast (split_on CHR ''.'' (name img)))))
                             ''image'';
                      effectName =
                        js_or (map_option (\<lambda>cfg. effect_name (effect cfg))
                                 (lastAppliedConfig s))
                          ''enhanced''
                  in Some \<lparr>href = g, download = nm @ ''-'' @ effectName @ ''.png''\<rparr>)))"

section \<open>The remote effect invoker\<close>

text \<open>
  \<^verbatim>\<open>applyLightingEffect\<close> lives in the service module and is opaque here: a parameter of
  the model. A call either resolves with the image payload or rejects with a thrown
  value, of which the controller reads only \<^verbatim>\<open>err.message\<close> (\<open>None\<close> when the thrown
  value carries none).
\<close>

datatype Outcome = Resolved string | Rejected "string option"

type_synonym RemoteCall =
  "ImageFile \<times> LightingEffect \<times> SunlightIntensity \<times> SunlightDirection"

type_synonym Invoker =
  "ImageFile \<Rightarrow> LightingEffect \<Rightarrow> SunlightIntensity \<Rightarrow> SunlightDirection \<Rightarrow> Outcome"

section \<open>runEffect and the two click handlers\<close>

text \<open>
  \<^verbatim>\<open>runEffect\<close> is asynchronous. Its body up to the \<^verbatim>\<open>await\<close> is \<open>runEffect_begin\<close>:
  it returns the state after the four setters and the remote call that is issued, or the
  state with the error set and no call when no image is uploaded. The continuation
  after the \<^verbatim>\<open>await\<close> (the rest of \<^verbatim>\<open>try\<close>, \<^verbatim>\<open>catch\<close> and \<^verbatim>\<open>finally\<close>) is
  \<open>runEffect_settle\<close>: it only calls setters with values of its closure, so it is a
  function of the state it finds when the call settles.
\<close>

definition runEffect_begin ::
  "AppState \<Rightarrow> LightingEffect \<Rightarrow> SunlightIntensity \<Rightarrow> SunlightDirection \<Rightarrow> ActiveProcess
     \<Rightarrow> AppState \<times> RemoteCall option" where
  "runEffect_begin s eff inten dir processType =
     (case originalImage s of
        None \<Rightarrow> (s\<lparr>error := Some ''Please upload an image first.''\<rparr>, None)
      | Some img \<Rightarrow>
          (s\<lparr>isLoading := True, activeProcess := processType, error := None,
             generatedImage := None\<rparr>,
           Some (img, eff, inten, dir)))"

definition runEffect_settle ::
  "AppState \<Rightarrow> LightingEffect \<Rightarrow> SunlightIntensity \<Rightarrow> SunlightDirection \<Rightarrow> ActiveProcess
     \<Rightarrow> Outcome \<Rightarrow> AppState" where
  "runEffect_settle s eff inten dir processType out =
     (let s1 =
        (case out of
           Resolved result \<Rightarrow>
             (let s' = s\<lparr>generatedImage := Some result\<rparr>
              in if processType \<noteq> Some Variation
                 then s'\<lparr>lastAppliedConfig :=
                        Some \<lparr>effect = eff, intensity = inten, direction = dir\<rparr>\<rparr>
                 else s')
         | Rejected m \<Rightarrow> s\<lparr>error := Some (js_or m ''An unexpected error occurred.'')\<rparr>)
      in s1\<lparr>isLoading := False, activeProcess := None\<rparr>)"

text \<open>
  The whole of \<^verbatim>\<open>runEffect\<close> when nothing else happens between the call and its
  settling: the final state and the list of remote calls made.
\<close>

definition runEffect ::
  "Invoker \<Rightarrow> AppState \<Rightarrow> LightingEffect \<Rightarrow> SunlightIntensity \<Rightarrow> SunlightDirection
     \<Rightarrow> ActiveProcess \<Rightarrow> AppState \<times> RemoteCall list" where
  "runEffect invoke s eff inten dir processType =
     (case runEffect_begin s eff inten dir processType of
        (s', None) \<Rightarrow> (s', [])
      | (s', Some (img, e, i, d)) \<Rightarrow>
          (runEffect_settle s' eff inten dir processType (invoke img e i d),
           [(img, e, i, d)]))"

definition handleEffectClick ::
  "Invoker \<Rightarrow> AppState \<Rightarrow> LightingEffect \<Rightarrow> AppState \<times> RemoteCall list" where
  "handleEffectClick invoke s eff =
     runEffect invoke (s\<lparr>isAddMenuOpen := False, isRemoveMenuOpen := False\<rparr>)
       eff (sunlightIntensity s) (sunlightDirection s) (Some (Effect eff))"

definition handleVariationClick ::
  "Invoker \<Rightarrow> AppState \<Rightarrow> AppState \<times> RemoteCall list" where
  "handleVariationClick invoke s =
     (case lastAppliedConfig s of
        None \<Rightarrow> (s, [])
      | Some cfg \<Rightarrow>
          runEffect invoke s (effect cfg) (intensity cfg) (direction cfg) (Some Variation))"

section \<open>The component as an event loop\<close>

text \<open>
  The states the component can be in are those its handlers produce from the initial
  one. An event is the run of one handler or of one callback; a remote call or a file
  reading that was started stays pending until its own event settles it, in any order
  and with any other event in between. The \<^verbatim>\<open>disabled\<close> attributes of the buttons are
  left out, so every handler may run in every state: the runs below include all those
  of the page.
\<close>

record System =
  app :: AppState
  inflight :: "(RemoteCall \<times> ActiveProcess) list"
  reading :: "File list"

datatype Event =
    FileChosen "File option"
  | ReaderLoaded nat string
  | ReaderFailed nat
  | EffectClicked LightingEffect
  | VariationClicked
  | CallSettled nat Outcome
  | IntensityChanged SunlightIntensity
  | DirectionClicked SunlightDirection
  | AddMenuToggled
  | RemoveMenuToggled
  | MouseDownOutside bool bool
  | DownloadClicked

definition start_system :: System where
  "start_system = \<lparr> app = initial, inflight = [], reading = [] \<rparr>"

definition remove_nth :: "nat \<Rightarrow> 'a list \<Rightarrow> 'a list" where
  "remove_nth k xs = take k xs @ drop (Suc k) xs"

definition start_call ::
  "System \<Rightarrow> AppState \<times> RemoteCall option \<Rightarrow> ActiveProcess \<Rightarrow> System" where
  "start_call \<sigma> r processType =
     (case r of
        (s', None) \<Rightarrow> \<sigma>\<lparr>app := s'\<rparr>
      | (s', Some c) \<Rightarrow> \<sigma>\<lparr>app := s', inflight := inflight \<sigma> @ [(c, processType)]\<rparr>)"

text \<open>
  \<open>ReaderLoaded k\<close>, \<open>ReaderFailed k\<close> and \<open>CallSettled k\<close> settle the pending reading or
  call number \<open>k\<close>, and do nothing when there is none. \<open>MouseDownOutside a r\<close> is a mouse
  press outside the add menu (\<open>a\<close>) and outside the remove menu (\<open>r\<close>).
\<close>

fun dispatch :: "System \<Rightarrow> Event \<Rightarrow> System" where
  "dispatch \<sigma> (FileChosen file) =
     (case handleImageUpload (app \<sigma>) file of
        (s', None) \<Rightarrow> \<sigma>\<lparr>app := s'\<rparr>
      | (s', Some f) \<Rightarrow> \<sigma>\<lparr>app := s', reading := reading \<sigma> @ [f]\<rparr>)"
| "dispatch \<sigma> (ReaderLoaded k result) =
     (if k < length (reading \<sigma>)
      then \<sigma>\<lparr>app := reader_onload (app \<sigma>) (reading \<sigma> ! k) result,
             reading := remove_nth k (reading \<sigma>)\<rparr>
      else \<sigma>)"
| "dispatch \<sigma> (ReaderFailed k) =
     (if k < length (reading \<sigma>)
      then \<sigma>\<lparr>app := reader_onerror (app \<sigma>), reading := remove_nth k (reading \<sigma>)\<rparr>
      else \<sigma>)"
| "dispatch \<sigma> (EffectClicked eff) =
     start_call \<sigma>
       (runEffect_begin ((app \<sigma>)\<lparr>isAddMenuOpen := False, isRemoveMenuOpen := False\<rparr>)
          eff (sunlightIntensity (app \<sigma>)) (sunlightDirection (app \<sigma>)) (Some (Effect eff)))
       (Some (Effect eff))"
| "dispatch \<sigma> VariationClicked =
     (case lastAppliedConfig (app \<sigma>) of
        None \<Rightarrow> \<sigma>
      | Some cfg \<Rightarrow>
          start_call \<sigma>
            (runEffect_begin (app \<sigma>) (effect cfg) (intensity cfg) (direction cfg)
               (Some Variation))
            (Some Variation))"
| "dispatch \<sigma> (CallSettled k out) =
     (if k < length (inflight \<sigma>)
      then (case inflight \<sigma> ! k of
              ((img, e, i, d), processType) \<Rightarrow>
                \<sigma>\<lparr>app := runEffect_settle (app \<sigma>) e i d processType out,
                  inflight := remove_nth k (inflight \<sigma>)\<rparr>)
      else \<sigma>)"
| "dispatch \<sigma> (IntensityChanged i) = \<sigma>\<lparr>app := (app \<sigma>)\<lparr>sunlightIntensity := i\<rparr>\<rparr>"
| "dispatch \<sigma> (DirectionClicked d) = \<sigma>\<lparr>app := (app \<sigma>)\<lparr>sunlightDirection := d\<rparr>\<rparr>"
| "dispatch \<sigma> AddMenuToggled =
     \<sigma>\<lparr>app := (app \<sigma>)\<lparr>isAddMenuOpen := \<not> isAddMenuOpen (app \<sigma>)\<rparr>\<rparr>"
| "dispatch \<sigma> RemoveMenuToggled =
     \<sigma>\<lparr>app := (app \<sigma>)\<lparr>isRemoveMenuOpen := \<not> isRemoveMenuOpen (app \<sigma>)\<rparr>\<rparr>"
| "dispatch \<sigma> (MouseDownOutside a r) =
     (let s1 = (if a then (app \<sigma>)\<lparr>isAddMenuOpen := False\<rparr> else app \<sigma>)
      in \<sigma>\<lparr>app := (if r then s1\<lparr>isRemoveMenuOpen := False\<rparr> else s1)\<rparr>)"
| "dispatch \<sigma> DownloadClicked = \<sigma>"

fun run :: "System \<Rightarrow> Event list \<Rightarrow> System" where
  "run \<sigma> [] = \<sigma>"
| "run \<sigma> (ev # evs) = run (dispatch \<sigma> ev) evs"

text \<open>
  What every run keeps: while a call is pending or a configuration is stored, an image
  is uploaded.
\<close>

definition image_present :: "System \<Rightarrow> bool" where
  "image_present \<sigma> =
     (if inflight \<sigma> = [] \<and> lastAppliedConfig (app \<sigma>) = None then True
      else originalImage (app \<sigma>) \<noteq> None)"

section \<open>The file name of the specification\<close>

text \<open>
  The specification names the download \<^verbatim>\<open><original-stem>-<effect-or-"enhanced">.png\<close>.
  \<open>spec_stem\<close> follows its words, not the code: the name without its final extension,
  that is without its last dot and what follows it; a name with no dot is its own stem.
\<close>

definition spec_stem :: "string \<Rightarrow> string" where
  "spec_stem nm =
     (if CHR ''.'' \<in> set nm
      then rev (tl (dropWhile (\<lambda>c. c \<noteq> CHR ''.'') (rev nm)))
      else nm)"

definition spec_download_name :: "AppState \<Rightarrow> ImageFile \<Rightarrow> string" where
  "spec_download_name s img =
     spec_stem (name img) @ ''-''
       @ (case lastAppliedConfig s of None \<Rightarrow> ''enhanced''
                                   | Some cfg \<Rightarrow> effect_name (effect cfg))
       @ ''.png''"

section \<open>Sample states and sessions\<close>

definition sample_image :: ImageFile where
  "sample_image = \<lparr> base64 = Some ''AAAA'', mimeType = ''image/png'', name = ''beach.png'' \<rparr>"

definition sample_file :: File where
  "sample_file = \<lparr> file_type = ''image/png'', file_name = ''beach.png'' \<rparr>"

definition text_file :: File where
  "text_file = \<lparr> file_type = ''text/plain'', file_name = ''notes.txt'' \<rparr>"

text \<open>A state with no image in which every other cell differs from its initial value.\<close>

definition busy_without_image :: AppState where
  "busy_without_image = \<lparr> originalImage = None, generatedImage = Some ''data:old'',
     isLoading = True, error = Some ''old error'', activeProcess = Some Variation,
     sunlightIntensity = Intensity3, sunlightDirection = Left,
     lastAppliedConfig =
       Some \<lparr>effect = Shadows, intensity = Intensity1, direction = Bottom\<rparr>,
     isAddMenuOpen = True, isRemoveMenuOpen = True \<rparr>"

text \<open>A state with an image, the result of an earlier request and an error on display.\<close>

definition with_result :: AppState where
  "with_result = \<lparr> originalImage = Some sample_image,
     generatedImage = Some ''data:old'', isLoading = False, error = Some ''old error'',
     activeProcess = None, sunlightIntensity = Intensity2, sunlightDirection = Top,
     lastAppliedConfig =
       Some \<lparr>effect = Sunlight, intensity = Intensity2, direction = Top\<rparr>,
     isAddMenuOpen = False, isRemoveMenuOpen = False \<rparr>"

text \<open>A state with an image uploaded and no effect applied yet.\<close>

definition just_uploaded :: AppState where
  "just_uploaded = initial\<lparr>originalImage := Some sample_image\<rparr>"

text \<open>The state \<open>with_result\<close> for an original whose file name has no extension.\<close>

definition photo_result :: AppState where
  "photo_result = with_result\<lparr>originalImage := Some (sample_image\<lparr>name := ''photo''\<rparr>)\<rparr>"

text \<open>
  A session: a PNG is chosen and read, "Add Sunlight" is clicked with the initial
  intensity 2 and direction top, and the remote call resolves.
\<close>

definition sunlight_session :: "Event list" where
  "sunlight_session =
     [FileChosen (Some sample_file),
      ReaderLoaded 0 ''data:image/png;base64,AAAA'',
      EffectClicked Sunlight,
      CallSettled 0 (Resolved ''data:image/png;base64,BBBB'')]"

section \<open>Facts about the string operations\<close>

lemma prepend_not_Nil: "prepend x ws \<noteq> []"
  by (cases ws) simp_all

lemma prepend_append: "ws \<noteq> [] \<Longrightarrow> prepend x (ws @ vs) = prepend x ws @ vs"
  by (cases ws) simp_all

lemma split_on_not_Nil: "split_on c s \<noteq> []"
  by (cases s) (simp_all add: prepend_not_Nil)

lemma split_on_append: "split_on c (pre @ c # rest) = split_on c pre @ split_on c rest"
  by (induction pre) (simp_all add: prepend_append split_on_not_Nil)

lemma split_on_no_sep: "c \<notin> set s \<Longrightarrow> split_on c s = [s]"
  by (induction s) auto

lemma join_prepend:
  assumes "ws \<noteq> []"
  shows "join sep (prepend x ws) = x # join sep ws"
proof (cases ws)
  case Nil
  with assms show ?thesis by simp
next
  case (Cons w vs)
  then show ?thesis by (cases vs) auto
qed

lemma join_split_on: "join [c] (split_on c s) = s"
proof (induction s)
  case Nil
  show ?case by simp
next
  case (Cons x xs)
  obtain w ws where pieces: "split_on c xs = w # ws"
    using split_on_not_Nil [of c xs] by (cases "split_on c xs") auto
  show ?case
  proof (cases "x = c")
    case True
    with Cons pieces show ?thesis by simp
  next
    case False
    with Cons show ?thesis
      by (simp add: join_prepend split_on_not_Nil)
  qed
qed

text \<open>Dropping the last piece of a split name and joining the rest cuts at the last dot.\<close>

lemma join_butlast_split_on:
  assumes "c \<notin> set ext"
  shows "join [c] (butlast (split_on c (pre @ c # ext))) = pre"
  using assms by (simp add: split_on_append split_on_no_sep butlast_append join_split_on)

lemma spec_stem_at_last_dot:
  assumes "CHR ''.'' \<notin> set ext"
  shows "spec_stem (pre @ CHR ''.'' # ext) = pre"
proof -
  have "dropWhile (\<lambda>c. c \<noteq> CHR ''.'') (rev ext @ CHR ''.'' # rev pre) = CHR ''.'' # rev pre"
    using assms by (auto simp: dropWhile_append3)
  then show ?thesis by (simp add: spec_stem_def)
qed

lemma js_stem_with_dot:
  assumes "CHR ''.'' \<in> set nm"
  shows "join ''.'' (butlast (split_on CHR ''.'' nm)) = spec_stem nm"
proof -
  from assms obtain pre ext where "nm = pre @ CHR ''.'' # ext" and "CHR ''.'' \<notin> set ext"
    using split_list_last by fastforce
  then show ?thesis
    using join_butlast_split_on [of "CHR ''.''" ext pre] spec_stem_at_last_dot [of ext pre]
    by simp
qed

lemma js_stem_without_dot:
  assumes "CHR ''.'' \<notin> set nm"
  shows "join ''.'' (butlast (split_on CHR ''.'' nm)) = []"
  using assms by (simp add: split_on_no_sep)

text \<open>
  The reader's result is a data URL, \<^verbatim>\<open>data:<type>;base64,<payload>\<close>: when neither part
  holds a comma, \<^verbatim>\<open>split(',')[1]\<close> is the payload.
\<close>

lemma payload_of_data_url:
  assumes "CHR '','' \<notin> set pre" and "CHR '','' \<notin> set payload"
  shows "element_at (split_on CHR '','' (pre @ CHR '','' # payload)) 1 = Some payload"
  using assms by (simp add: split_on_append split_on_no_sep element_at_def)

lemma effect_name_not_empty: "effect_name e \<noteq> []"
  by (cases e) simp_all

section \<open>runEffect\<close>

text \<open>
  C1. In a state with no uploaded image, \<^verbatim>\<open>runEffect\<close> with any effect, intensity,
  direction and process tag sets the error message "Please upload an image first." and
  makes no remote call, whatever the invoker is; so does \<^verbatim>\<open>handleEffectClick\<close>.
\<close>

theorem runEffect_no_image:
  assumes "originalImage s = None"
  shows "error (fst (runEffect invoke s eff inten dir processType))
           = Some ''Please upload an image first.''
       \<and> snd (runEffect invoke s eff inten dir processType) = []
       \<and> error (fst (handleEffectClick invoke s eff)) = Some ''Please upload an image first.''
       \<and> snd (handleEffectClick invoke s eff) = []"
  using assms by (simp add: runEffect_def runEffect_begin_def handleEffectClick_def)

theorem runEffect_no_image_witness:
  "originalImage initial = None
   \<and> error (fst (runEffect (\<lambda>img e i d. Resolved ''data:image/png;base64,AAAA'')
        initial Sunlight Intensity2 Top (Some (Effect Sunlight))))
       = Some ''Please upload an image first.''
   \<and> snd (runEffect (\<lambda>img e i d. Resolved ''data:image/png;base64,AAAA'')
        initial Sunlight Intensity2 Top (Some (Effect Sunlight))) = []"
proof -
  have h: "originalImage initial = None" by (simp add: initial_def)
  from runEffect_no_image [OF h] h show ?thesis by blast
qed

text \<open>
  C10. The failed precondition is atomic on the rest of the state: with no uploaded
  image, \<^verbatim>\<open>runEffect\<close> returns the state it was called in with the error message
  replaced, so the loading flag, the active-process tag, the generated result and the
  last applied configuration (and the uploaded image, still absent) are as before.
\<close>

theorem failed_precondition_frame:
  assumes "originalImage s = None"
  shows "fst (runEffect invoke s eff inten dir processType)
           = s\<lparr>error := Some ''Please upload an image first.''\<rparr>
       \<and> isLoading (fst (runEffect invoke s eff inten dir processType)) = isLoading s
       \<and> activeProcess (fst (runEffect invoke s eff inten dir processType)) = activeProcess s
       \<and> generatedImage (fst (runEffect invoke s eff inten dir processType)) = generatedImage s
       \<and> lastAppliedConfig (fst (runEffect invoke s eff inten dir processType))
           = lastAppliedConfig s
       \<and> originalImage (fst (runEffect invoke s eff inten dir processType)) = None"
  using assms by (simp add: runEffect_def runEffect_begin_def)

theorem failed_precondition_frame_witness:
  "originalImage busy_without_image = None
   \<and> fst (runEffect (\<lambda>img e i d. Rejected None) busy_without_image
        RemoveShadows Intensity1 Center None)
       = busy_without_image\<lparr>error := Some ''Please upload an image first.''\<rparr>
   \<and> isLoading (fst (runEffect (\<lambda>img e i d. Rejected None) busy_without_image
        RemoveShadows Intensity1 Center None)) = True"
proof -
  have h: "originalImage busy_without_image = None"
    by (simp add: busy_without_image_def)
  have l: "isLoading busy_without_image = True"
    by (simp add: busy_without_image_def)
  from failed_precondition_frame [OF h] h l show ?thesis by metis
qed

text \<open>
  C9. With an image uploaded, the part of \<^verbatim>\<open>runEffect\<close> that runs before the invoker is
  called sets \<open>isLoading\<close> to true and \<open>activeProcess\<close> to the requested process tag,
  sets \<open>error\<close> and \<open>generatedImage\<close> to none, changes nothing else, and issues the call
  with the uploaded image and the requested parameters.
\<close>

theorem runEffect_begin_with_image:
  assumes "originalImage s = Some img"
  shows "runEffect_begin s eff inten dir processType
           = (s\<lparr>isLoading := True, activeProcess := processType, error := None,
                generatedImage := None\<rparr>,
              Some (img, eff, inten, dir))
       \<and> isLoading (fst (runEffect_begin s eff inten dir processType)) = True
       \<and> activeProcess (fst (runEffect_begin s eff inten dir processType)) = processType
       \<and> generatedImage (fst (runEffect_begin s eff inten dir processType)) = None
       \<and> error (fst (runEffect_begin s eff inten dir processType)) = None"
  using assms by (simp add: runEffect_begin_def)

theorem runEffect_begin_with_image_witness:
  "originalImage with_result = Some sample_image
   \<and> isLoading (fst (runEffect_begin with_result Shadows Intensity3 Left
        (Some (Effect Shadows)))) = True
   \<and> activeProcess (fst (runEffect_begin with_result Shadows Intensity3 Left
        (Some (Effect Shadows)))) = Some (Effect Shadows)
   \<and> generatedImage (fst (runEffect_begin with_result Shadows Intensity3 Left
        (Some (Effect Shadows)))) = None
   \<and> error (fst (runEffect_begin with_result Shadows Intensity3 Left
        (Some (Effect Shadows)))) = None
   \<and> snd (runEffect_begin with_result Shadows Intensity3 Left (Some (Effect Shadows)))
       = Some (sample_image, Shadows, Intensity3, Left)"
proof -
  have h: "originalImage with_result = Some sample_image"
    by (simp add: with_result_def)
  from runEffect_begin_with_image [OF h, of Shadows Intensity3 Left "Some (Effect Shadows)"] h
  show ?thesis by simp
qed

text \<open>
  C2. With an image uploaded, a \<^verbatim>\<open>runEffect\<close> whose process tag is not \<^verbatim>\<open>'variation'\<close> and
  whose remote call resolves ends with \<open>generatedImage\<close> equal to the returned payload
  and \<open>lastAppliedConfig\<close> equal to the effect, intensity and direction of the call.
  The continuation does so in whatever state it finds when the call resolves.
\<close>

theorem runEffect_success_records_config:
  assumes "originalImage s = Some img"
    and "processType \<noteq> Some Variation"
    and "invoke img eff inten dir = Resolved payload"
  shows "generatedImage (fst (runEffect invoke s eff inten dir processType)) = Some payload
       \<and> lastAppliedConfig (fst (runEffect invoke s eff inten dir processType))
           = Some \<lparr>effect = eff, intensity = inten, direction = dir\<rparr>
       \<and> snd (runEffect invoke s eff inten dir processType) = [(img, eff, inten, dir)]
       \<and> generatedImage (runEffect_settle s' eff inten dir processType (Resolved payload))
           = Some payload
       \<and> lastAppliedConfig (runEffect_settle s' eff inten dir processType (Resolved payload))
           = Some \<lparr>effect = eff, intensity = inten, direction = dir\<rparr>"
  using assms
  by (simp add: runEffect_def runEffect_begin_def runEffect_settle_def Let_def)

theorem runEffect_success_records_config_witness:
  "originalImage with_result = Some sample_image
   \<and> Some (Effect Shadows) \<noteq> Some Variation
   \<and> generatedImage (fst (runEffect (\<lambda>img e i d. Resolved ''data:new'') with_result
        Shadows Intensity3 Left (Some (Effect Shadows)))) = Some ''data:new''
   \<and> lastAppliedConfig (fst (runEffect (\<lambda>img e i d. Resolved ''data:new'') with_result
        Shadows Intensity3 Left (Some (Effect Shadows))))
       = Some \<lparr>effect = Shadows, intensity = Intensity3, direction = Left\<rparr>"
proof -
  have h: "originalImage with_result = Some sample_image"
    by (simp add: with_result_def)
  have p: "Some (Effect Shadows) \<noteq> Some Variation" by simp
  have r: "(\<lambda>img e i d. Resolved ''data:new'') sample_image Shadows Intensity3 Left
             = Resolved ''data:new''" by simp
  from runEffect_success_records_config [OF h p r] h p show ?thesis by blast
qed

text \<open>
  C3. With an image uploaded, \<^verbatim>\<open>runEffect\<close> ends with \<open>isLoading\<close> false and
  \<open>activeProcess\<close> none whether the invoker resolves or rejects: the \<^verbatim>\<open>finally\<close> block
  runs on both paths, in whatever state the continuation finds.
\<close>

theorem runEffect_clears_loading:
  assumes "originalImage s = Some img"
  shows "isLoading (fst (runEffect invoke s eff inten dir processType)) = False
       \<and> activeProcess (fst (runEffect invoke s eff inten dir processType)) = None
       \<and> isLoading (runEffect_settle s' eff inten dir processType out) = False
       \<and> activeProcess (runEffect_settle s' eff inten dir processType out) = None"
  using assms
  by (simp add: runEffect_def runEffect_begin_def runEffect_settle_def Let_def
      split: Outcome.split)

theorem runEffect_clears_loading_witness:
  "originalImage with_result = Some sample_image
   \<and> isLoading (fst (runEffect (\<lambda>img e i d. Rejected (Some ''quota exceeded''))
        with_result Sunlight Intensity1 Right (Some (Effect Sunlight)))) = False
   \<and> activeProcess (fst (runEffect (\<lambda>img e i d. Rejected (Some ''quota exceeded''))
        with_result Sunlight Intensity1 Right (Some (Effect Sunlight)))) = None
   \<and> error (fst (runEffect (\<lambda>img e i d. Rejected (Some ''quota exceeded''))
        with_result Sunlight Intensity1 Right (Some (Effect Sunlight))))
       = Some ''quota exceeded''"
proof -
  have h: "originalImage with_result = Some sample_image"
    by (simp add: with_result_def)
  have e: "error (fst (runEffect (\<lambda>img e i d. Rejected (Some ''quota exceeded''))
        with_result Sunlight Intensity1 Right (Some (Effect Sunlight))))
       = Some ''quota exceeded''"
    by (simp add: runEffect_def runEffect_begin_def runEffect_settle_def with_result_def
        js_or_def)
  from runEffect_clears_loading [OF h] h e show ?thesis by blast
qed

section \<open>handleVariationClick\<close>

text \<open>
  C5. With no last applied configuration, \<^verbatim>\<open>handleVariationClick\<close> does nothing: the
  state is returned as it was and no remote call is made.
\<close>

theorem handleVariationClick_without_config:
  assumes "lastAppliedConfig s = None"
  shows "handleVariationClick invoke s = (s, [])"
  using assms by (simp add: handleVariationClick_def)

theorem handleVariationClick_without_config_witness:
  "lastAppliedConfig just_uploaded = None
   \<and> handleVariationClick (\<lambda>img e i d. Resolved ''data:new'') just_uploaded
       = (just_uploaded, [])"
proof -
  have h: "lastAppliedConfig just_uploaded = None"
    by (simp add: just_uploaded_def initial_def)
  from handleVariationClick_without_config [OF h] h show ?thesis by blast
qed

text \<open>Every event keeps \<open>image_present\<close>, hence so does every run.\<close>

lemma image_present_start_call:
  assumes "image_present \<sigma>" and "app \<sigma> = s" and "originalImage s0 = originalImage s"
    and "lastAppliedConfig s0 = lastAppliedConfig s"
  shows "image_present (start_call \<sigma> (runEffect_begin s0 eff inten dir processType) processType)"
  using assms
  by (cases "originalImage s")
     (auto simp: image_present_def start_call_def runEffect_begin_def split: if_splits)

lemma image_present_dispatch:
  assumes "image_present \<sigma>"
  shows "image_present (dispatch \<sigma> ev)"
proof (cases ev)
  case (FileChosen chosen)
  with assms show ?thesis
    by (auto simp: image_present_def handleImageUpload_def split: option.splits if_splits)
next
  case (ReaderLoaded k result)
  with assms show ?thesis
    by (auto simp: image_present_def reader_onload_def split: if_splits)
next
  case (ReaderFailed k)
  with assms show ?thesis
    by (auto simp: image_present_def reader_onerror_def split: if_splits)
next
  case (EffectClicked eff)
  with assms show ?thesis
    by (simp add: image_present_start_call [where s = "app \<sigma>"])
next
  case VariationClicked
  with assms show ?thesis
    by (simp add: image_present_start_call [where s = "app \<sigma>"] split: option.split)
next
  case (CallSettled k out)
  show ?thesis
  proof (cases "k < length (inflight \<sigma>)")
    case False
    with assms CallSettled show ?thesis by simp
  next
    case True
    then have "inflight \<sigma> \<noteq> []" by auto
    with assms have "originalImage (app \<sigma>) \<noteq> None"
      by (simp add: image_present_def)
    with True CallSettled show ?thesis
      by (auto simp: image_present_def runEffect_settle_def Let_def
          split: prod.splits Outcome.splits)
  qed
next
  case (MouseDownOutside a r)
  with assms show ?thesis
    by (auto simp: image_present_def Let_def split: if_splits)
qed (use assms in \<open>auto simp: image_present_def split: if_splits\<close>)

lemma image_present_run:
  assumes "image_present \<sigma>"
  shows "image_present (run \<sigma> evs)"
  using assms by (induction evs arbitrary: \<sigma>) (simp_all add: image_present_dispatch)

lemma image_present_start: "image_present start_system"
  by (simp add: image_present_def start_system_def initial_def)

text \<open>
  C4. In every state of a run of the component in which \<open>lastAppliedConfig\<close> holds a
  configuration, an image is uploaded, \<^verbatim>\<open>handleVariationClick\<close> makes exactly one remote
  call, with that image and the stored effect, intensity and direction, and it leaves
  \<open>lastAppliedConfig\<close> equal to the stored configuration whether the call resolves or
  rejects. The continuation of a \<^verbatim>\<open>'variation'\<close> call leaves \<open>lastAppliedConfig\<close> as it
  finds it, and on a resolved call stores the payload as the generated image.
\<close>

theorem handleVariationClick_replays_config:
  assumes "s = app (run start_system evs)"
    and "lastAppliedConfig s = Some cfg"
  shows "\<exists>img. originalImage s = Some img
           \<and> snd (handleVariationClick invoke s)
               = [(img, effect cfg, intensity cfg, direction cfg)]
           \<and> lastAppliedConfig (fst (handleVariationClick invoke s)) = Some cfg
           \<and> lastAppliedConfig (runEffect_settle s' (effect cfg) (intensity cfg)
                 (direction cfg) (Some Variation) out) = lastAppliedConfig s'
           \<and> generatedImage (runEffect_settle s' (effect cfg) (intensity cfg)
                 (direction cfg) (Some Variation) (Resolved payload)) = Some payload"
proof -
  have "image_present (run start_system evs)"
    by (rule image_present_run [OF image_present_start])
  with assms obtain img where img: "originalImage s = Some img"
    by (auto simp: image_present_def split: if_splits)
  have settle: "lastAppliedConfig (runEffect_settle t (effect cfg) (intensity cfg)
                 (direction cfg) (Some Variation) r) = lastAppliedConfig t" for t r
    by (simp add: runEffect_settle_def Let_def split: Outcome.split)
  have "snd (handleVariationClick invoke s) = [(img, effect cfg, intensity cfg, direction cfg)]"
    using img assms(2) by (simp add: handleVariationClick_def runEffect_def runEffect_begin_def)
  moreover have "lastAppliedConfig (fst (handleVariationClick invoke s)) = Some cfg"
    using img assms(2)
    by (simp add: handleVariationClick_def runEffect_def runEffect_begin_def settle)
  moreover have "generatedImage (runEffect_settle s' (effect cfg) (intensity cfg)
                 (direction cfg) (Some Variation) (Resolved payload)) = Some payload"
    by (simp add: runEffect_settle_def Let_def)
  ultimately show ?thesis using img settle by blast
qed

lemma sunlight_session_state:
  "app (run start_system sunlight_session)
     = \<lparr> originalImage = Some sample_image,
         generatedImage = Some ''data:image/png;base64,BBBB'', isLoading = False,
         error = None, activeProcess = None, sunlightIntensity = Intensity2,
         sunlightDirection = Top,
         lastAppliedConfig =
           Some \<lparr>effect = Sunlight, intensity = Intensity2, direction = Top\<rparr>,
         isAddMenuOpen = False, isRemoveMenuOpen = False \<rparr>"
  by (simp add: sunlight_session_def start_system_def initial_def sample_file_def
      sample_image_def handleImageUpload_def startsWith_def reader_onload_def element_at_def
      remove_nth_def start_call_def runEffect_begin_def runEffect_settle_def)

theorem handleVariationClick_replays_config_witness:
  "lastAppliedConfig (app (run start_system sunlight_session))
     = Some \<lparr>effect = Sunlight, intensity = Intensity2, direction = Top\<rparr>
   \<and> snd (handleVariationClick (\<lambda>img e i d. Resolved ''data:image/png;base64,CCCC'')
        (app (run start_system sunlight_session)))
       = [(sample_image, Sunlight, Intensity2, Top)]
   \<and> lastAppliedConfig
       (fst (handleVariationClick (\<lambda>img e i d. Resolved ''data:image/png;base64,CCCC'')
          (app (run start_system sunlight_session))))
       = Some \<lparr>effect = Sunlight, intensity = Intensity2, direction = Top\<rparr>"
proof -
  have c: "lastAppliedConfig (app (run start_system sunlight_session))
             = Some \<lparr>effect = Sunlight, intensity = Intensity2, direction = Top\<rparr>"
    by (simp add: sunlight_session_state)
  have i: "originalImage (app (run start_system sunlight_session)) = Some sample_image"
    by (simp add: sunlight_session_state)
  from handleVariationClick_replays_config [OF refl c] i c show ?thesis
    by auto
qed

section \<open>handleImageUpload\<close>

text \<open>
  C6. For a file whose type starts with "image/", an upload whose reading succeeds sets
  \<open>originalImage\<close> to the new file's payload, type and name, and sets
  \<open>generatedImage\<close>, \<open>lastAppliedConfig\<close> and \<open>error\<close> to none; the other cells keep
  their values. The callback of the reader does so in whatever state it finds.
\<close>

theorem upload_image_file:
  assumes "startsWith (file_type f) ''image/''"
  shows "upload s (Some f) (Loaded result)
           = s\<lparr>originalImage :=
                 Some \<lparr>base64 = element_at (split_on CHR '','' result) 1,
                       mimeType = file_type f, name = file_name f\<rparr>,
               generatedImage := None, lastAppliedConfig := None, error := None\<rparr>
       \<and> generatedImage (upload s (Some f) (Loaded result)) = None
       \<and> lastAppliedConfig (upload s (Some f) (Loaded result)) = None
       \<and> error (upload s (Some f) (Loaded result)) = None
       \<and> handleImageUpload s (Some f) = (s, Some f)
       \<and> reader_onload s' f result
           = s'\<lparr>originalImage :=
                  Some \<lparr>base64 = element_at (split_on CHR '','' result) 1,
                        mimeType = file_type f, name = file_name f\<rparr>,
                generatedImage := None, lastAppliedConfig := None, error := None\<rparr>"
  using assms by (simp add: upload_def handleImageUpload_def reader_onload_def)

theorem upload_image_file_witness:
  "startsWith (file_type sample_file) ''image/''
   \<and> upload with_result (Some sample_file) (Loaded ''data:image/png;base64,AAAA'')
       = with_result\<lparr>originalImage := Some sample_image, generatedImage := None,
           lastAppliedConfig := None, error := None\<rparr>"
proof -
  have h: "startsWith (file_type sample_file) ''image/''"
    by (simp add: startsWith_def sample_file_def)
  have p: "element_at (split_on CHR '','' ''data:image/png;base64,AAAA'') 1 = Some ''AAAA''"
    by (simp add: element_at_def)
  from upload_image_file [OF h, of with_result "''data:image/png;base64,AAAA''"] h p
  show ?thesis by (simp add: sample_file_def sample_image_def)
qed

text \<open>
  C7. For a file whose type does not start with "image/", the handler only sets the
  error "Please upload a valid image file (e.g., JPEG, PNG, WEBP)." and starts no
  reading: \<open>originalImage\<close> and every other cell keep their values.
\<close>

theorem upload_non_image_file:
  assumes "\<not> startsWith (file_type f) ''image/''"
  shows "handleImageUpload s (Some f)
           = (s\<lparr>error := Some ''Please upload a valid image file (e.g., JPEG, PNG, WEBP).''\<rparr>,
              None)
       \<and> originalImage (upload s (Some f) r) = originalImage s
       \<and> error (upload s (Some f) r)
           = Some ''Please upload a valid image file (e.g., JPEG, PNG, WEBP).''"
  using assms by (simp add: upload_def handleImageUpload_def)

theorem upload_non_image_file_witness:
  "\<not> startsWith (file_type text_file) ''image/''
   \<and> originalImage (upload with_result (Some text_file) (Loaded ''data:text/plain;base64,AAAA''))
       = Some sample_image
   \<and> error (upload with_result (Some text_file) (Loaded ''data:text/plain;base64,AAAA''))
       = Some ''Please upload a valid image file (e.g., JPEG, PNG, WEBP).''"
proof -
  have h: "\<not> startsWith (file_type text_file) ''image/''"
    by (simp add: startsWith_def text_file_def)
  have o: "originalImage with_result = Some sample_image"
    by (simp add: with_result_def)
  from upload_non_image_file [OF h, of with_result] h o show ?thesis by simp
qed

section \<open>handleDownload\<close>

text \<open>
  C8, as the code has it. With a non-empty generated image and an uploaded original,
  \<^verbatim>\<open>handleDownload\<close> saves the generated image under the name N-E.png, where E is the
  effect name of \<open>lastAppliedConfig\<close>, or "enhanced" when there is none, and N is the
  stem of the original file name (the name up to its last dot) when the name has a dot
  and that stem is not empty, and "image" otherwise.
\<close>

theorem handleDownload_file_name:
  assumes "generatedImage s = Some g" and "g \<noteq> []" and "originalImage s = Some img"
  shows "handleDownload s
           = Some \<lparr>href = g,
                  download =
                    (if CHR ''.'' \<in> set (name img) \<and> spec_stem (name img) \<noteq> []
                     then spec_stem (name img) else ''image'')
                    @ ''-''
                    @ (case lastAppliedConfig s of
                         None \<Rightarrow> ''enhanced''
                       | Some cfg \<Rightarrow> effect_name (effect cfg))
                    @ ''.png''\<rparr>"
proof -
  have stem: "js_or (Some (join ''.'' (butlast (split_on CHR ''.'' (name img))))) ''image''
                = (if CHR ''.'' \<in> set (name img) \<and> spec_stem (name img) \<noteq> []
                   then spec_stem (name img) else ''image'')"
  proof (cases "CHR ''.'' \<in> set (name img)")
    case True
    then show ?thesis by (simp add: js_or_def js_stem_with_dot)
  next
    case False
    then show ?thesis by (simp add: js_or_def js_stem_without_dot)
  qed
  have eff: "js_or (map_option (\<lambda>cfg. effect_name (effect cfg)) (lastAppliedConfig s))
               ''enhanced''
               = (case lastAppliedConfig s of
                    None \<Rightarrow> ''enhanced''
                  | Some cfg \<Rightarrow> effect_name (effect cfg))"
    by (simp add: js_or_def effect_name_not_empty split: option.split)
  show ?thesis
    using assms by (simp add: handleDownload_def Let_def stem eff)
qed

theorem handleDownload_file_name_witness:
  "generatedImage with_result = Some ''data:old'' \<and> ''data:old'' \<noteq> []
   \<and> originalImage with_result = Some sample_image
   \<and> handleDownload with_result
       = Some \<lparr>href = ''data:old'', download = ''beach-sunlight.png''\<rparr>"
proof -
  have g: "generatedImage with_result = Some ''data:old''"
    by (simp add: with_result_def)
  have n: "''data:old'' \<noteq> []" by simp
  have i: "originalImage with_result = Some sample_image"
    by (simp add: with_result_def)
  have c: "lastAppliedConfig with_result
             = Some \<lparr>effect = Sunlight, intensity = Intensity2, direction = Top\<rparr>"
    by (simp add: with_result_def)
  have st: "spec_stem ''beach.png'' = ''beach''"
    by (simp add: spec_stem_def)
  from handleDownload_file_name [OF g n i] g n i show ?thesis
    by (simp add: c st sample_image_def)
qed

text \<open>
  The file name of the specification is not the code's for an original named "photo",
  after a sunlight effect: the stem is "photo", so the specification's name is
  "photo-sunlight.png", and the download is named "image-sunlight.png".
\<close>

theorem handleDownload_stem_counterexample:
  "generatedImage photo_result = Some ''data:old''
   \<and> originalImage photo_result = Some (sample_image\<lparr>name := ''photo''\<rparr>)
   \<and> spec_download_name photo_result (sample_image\<lparr>name := ''photo''\<rparr>) = ''photo-sunlight.png''
   \<and> map_option download (handleDownload photo_result) = Some ''image-sunlight.png''
   \<and> map_option download (handleDownload photo_result)
       \<noteq> Some (spec_download_name photo_result (sample_image\<lparr>name := ''photo''\<rparr>))"
  by (simp add: photo_result_def with_result_def sample_image_def handleDownload_def
      spec_download_name_def spec_stem_def js_or_def)

end
